theory Spec2Isabelle
  imports Main "HOL-Library.Word"
begin

section \<open>Values\<close>

text \<open>
  \<^verbatim>\<open>uuid.UUID\<close> is a 128-bit token. A \<^verbatim>\<open>datetime\<close> is counted in microseconds from
  \<^verbatim>\<open>datetime.min\<close>, the least value of the type, so it is a natural number and
  \<^verbatim>\<open>datetime.min\<close> is zero. User identifiers are Python integers.
\<close>

type_synonym uuid = "128 word"
type_synonym datetime = nat

definition datetime_min :: datetime where
  "datetime_min = 0"

section \<open>The two tables\<close>

text \<open>
  A row of \<^verbatim>\<open>messages_by_conversation\<close> has the six columns named in the INSERT of
  \<^verbatim>\<open>create_message\<close>; a row of \<^verbatim>\<open>conversations\<close> has the columns named in the INSERT
  of \<^verbatim>\<open>create_or_get_conversation\<close> and in the UPDATE of \<^verbatim>\<open>create_message\<close>.
  The column names are prefixed because two records cannot share a field name.
\<close>

record message_row =
  msg_conversation_id :: uuid
  msg_sent_at :: datetime
  msg_message_id :: uuid
  msg_sender_id :: int
  msg_receiver_id :: int
  msg_content :: string

record conversation_row =
  conv_conversation_id :: uuid
  conv_list_of_users :: "int list"
  conv_created_at :: datetime
  conv_last_message_at :: "datetime option"
  conv_last_message_content :: "string option"

text \<open>
  The storage behind \<^verbatim>\<open>cassandra_client\<close>: the messages of each conversation (one
  partition per conversation id, its rows in clustering order), and the conversations in
  the order in which a scan of the table yields them.
\<close>

record db =
  messages_by_conversation :: "uuid \<Rightarrow> message_row list"
  conversations :: "conversation_row list"

definition empty_db :: db where
  "empty_db = \<lparr>messages_by_conversation = (\<lambda>_. []), conversations = []\<rparr>"

subsection \<open>The statements executed by the storage client\<close>

text \<open>
  Modelled from the spec: \<^verbatim>\<open>cassandra_client.execute\<close> (app/db/cassandra_client.py) and
  the schema of the two tables are not among the sources. The spec gives
  \<^verbatim>\<open>messages_by_conversation\<close> as "keyed by conversation id, clustered by sent time", a
  message as persisted "keyed by (conversationId, created_at, id)", and the messages of a
  conversation as "retrievable in descending created_at order". Each function below is
  one of the CQL statements of cassandra_models.py run against that storage.
\<close>

text \<open>
  Modelled from the spec: the place of a new row in its partition, newest first. The spec
  leaves the order among rows of equal \<^verbatim>\<open>sent_at\<close> open; here the row written last comes
  first among them.
\<close>

fun insert_clustered :: "message_row \<Rightarrow> message_row list \<Rightarrow> message_row list" where
  "insert_clustered r [] = [r]"
| "insert_clustered r (x # xs) =
     (if msg_sent_at x \<le> msg_sent_at r then r # x # xs else x # insert_clustered r xs)"

definition same_key :: "message_row \<Rightarrow> message_row \<Rightarrow> bool" where
  "same_key r x \<longleftrightarrow> msg_sent_at x = msg_sent_at r \<and> msg_message_id x = msg_message_id r"

text \<open>
  Modelled from the spec: \<^verbatim>\<open>INSERT INTO messages_by_conversation (conversation_id, sent_at,
  message_id, sender_id, receiver_id, content) VALUES (...)\<close>. A row with the same key is
  replaced.
\<close>

definition insert_message :: "message_row \<Rightarrow> db \<Rightarrow> db" where
  "insert_message r s =
     s\<lparr>messages_by_conversation :=
         (messages_by_conversation s)
           (msg_conversation_id r :=
              insert_clustered r
                (filter (\<lambda>x. \<not> same_key r x)
                   (messages_by_conversation s (msg_conversation_id r))))\<rparr>"

text \<open>
  Modelled from the spec: \<^verbatim>\<open>UPDATE conversations SET last_message_content = %s,
  last_message_at = %s WHERE conversation_id = %s\<close>. The spec's \<^verbatim>\<open>recordLastMessage\<close>
  "overwrites last_message_content and last_message_at unconditionally with the given
  values"; it says nothing of an id that no conversation has, and here no row is written
  for one.
\<close>

definition update_last_message :: "string \<Rightarrow> datetime \<Rightarrow> uuid \<Rightarrow> db \<Rightarrow> db" where
  "update_last_message content_v at cid s =
     s\<lparr>conversations :=
         map (\<lambda>c. if conv_conversation_id c = cid
                   then c\<lparr>conv_last_message_content := Some content_v,
                          conv_last_message_at := Some at\<rparr>
                   else c)
           (conversations s)\<rparr>"

text \<open>
  Modelled from the spec:
  \<^verbatim>\<open>SELECT * FROM messages_by_conversation WHERE conversation_id = %s\<close>.
\<close>

definition select_messages :: "uuid \<Rightarrow> db \<Rightarrow> message_row list" where
  "select_messages cid s = messages_by_conversation s cid"

text \<open>
  Modelled from the spec:
  \<^verbatim>\<open>SELECT * FROM messages_by_conversation WHERE conversation_id = %s AND sent_at < %s\<close>.
\<close>

definition select_messages_before :: "uuid \<Rightarrow> datetime \<Rightarrow> db \<Rightarrow> message_row list" where
  "select_messages_before cid before_timestamp s =
     filter (\<lambda>m. msg_sent_at m < before_timestamp) (messages_by_conversation s cid)"

text \<open>
  Modelled from the spec:
  \<^verbatim>\<open>SELECT * FROM conversations WHERE list_of_users CONTAINS %s ALLOW FILTERING\<close>.
\<close>

definition select_conversations_containing :: "int \<Rightarrow> db \<Rightarrow> conversation_row list" where
  "select_conversations_containing user_id s =
     filter (\<lambda>c. user_id \<in> set (conv_list_of_users c)) (conversations s)"

text \<open>
  Modelled from the spec: \<^verbatim>\<open>SELECT * FROM conversations WHERE conversation_id = %s\<close>.
\<close>

definition select_conversation :: "uuid \<Rightarrow> db \<Rightarrow> conversation_row list" where
  "select_conversation cid s =
     filter (\<lambda>c. conv_conversation_id c = cid) (conversations s)"

text \<open>
  Modelled from the spec: \<^verbatim>\<open>INSERT INTO conversations (conversation_id, list_of_users,
  created_at, last_message_at) VALUES (...)\<close>. The table is keyed by conversation id: a
  row with that id is replaced where it stands, any other id adds a row.
\<close>

fun upsert_conversation :: "conversation_row \<Rightarrow> conversation_row list \<Rightarrow> conversation_row list" where
  "upsert_conversation r [] = [r]"
| "upsert_conversation r (c # cs) =
     (if conv_conversation_id c = conv_conversation_id r then r # cs
      else c # upsert_conversation r cs)"

definition insert_conversation :: "conversation_row \<Rightarrow> db \<Rightarrow> db" where
  "insert_conversation r s = s\<lparr>conversations := upsert_conversation r (conversations s)\<rparr>"

section \<open>Python values used by the models\<close>

text \<open>
  The only \<^verbatim>\<open>raise\<close> of cassandra_models.py is \<^verbatim>\<open>raise Exception("Conversation not
  found")\<close>: an error is the exception's message.
\<close>

datatype error = Exception string

text \<open>
  \<^verbatim>\<open>xs[start:stop]\<close> on a list: a negative index counts from the end and is then clamped at
  zero, any other index is clamped at the length, and an empty range gives the empty list.
\<close>

definition slice_index :: "int \<Rightarrow> nat \<Rightarrow> nat" where
  "slice_index i n = (if i < 0 then nat (max (i + int n) 0) else min (nat i) n)"

definition py_slice :: "'a list \<Rightarrow> int \<Rightarrow> int \<Rightarrow> 'a list" where
  "py_slice xs start stop =
     (let lo = slice_index start (length xs);
          hi = slice_index stop (length xs)
      in take (hi - lo) (drop lo xs))"

text \<open>
  \<^verbatim>\<open>xs.sort(key=k, reverse=True)\<close>: descending by key, and rows of equal key keep their
  order (the list is reversed, sorted stably, and reversed again).
\<close>

definition sort_reverse :: "('a \<Rightarrow> nat) \<Rightarrow> 'a list \<Rightarrow> 'a list" where
  "sort_reverse k xs = rev (sort_key k (rev xs))"

text \<open>The envelope \<^verbatim>\<open>{"total": ..., "page": ..., "limit": ..., "data": ...}\<close>.\<close>

record 'a paginated =
  total :: nat
  page :: int
  limit :: int
  data :: "'a list"

text \<open>
  The six keys of a message as it is returned: \<^verbatim>\<open>MessageResponse\<close> in
  \<^verbatim>\<open>get_conversation_messages\<close>, a dict in \<^verbatim>\<open>get_messages_before_timestamp\<close> and in
  \<^verbatim>\<open>create_message\<close>.
\<close>

record message_response =
  mr_id :: uuid
  mr_created_at :: datetime
  mr_sender_id :: int
  mr_receiver_id :: int
  mr_content :: string
  mr_conversation_id :: uuid

definition message_of_row :: "message_row \<Rightarrow> message_response" where
  "message_of_row msg =
     \<lparr>mr_id = msg_message_id msg,
      mr_created_at = msg_sent_at msg,
      mr_sender_id = msg_sender_id msg,
      mr_receiver_id = msg_receiver_id msg,
      mr_content = msg_content msg,
      mr_conversation_id = msg_conversation_id msg\<rparr>"

text \<open>
  The dict built by \<^verbatim>\<open>get_conversation\<close> and by \<^verbatim>\<open>get_user_conversations\<close>;
  \<^verbatim>\<open>user1_id\<close> and \<^verbatim>\<open>user2_id\<close> may be \<^verbatim>\<open>None\<close>.
\<close>

record conversation_summary =
  cs_id :: uuid
  cs_user1_id :: "int option"
  cs_user2_id :: "int option"
  cs_last_message_at :: "datetime option"
  cs_last_message_content :: "string option"

text \<open>
  The dict built by the create branch of \<^verbatim>\<open>create_or_get_conversation\<close>.
\<close>

record new_conversation =
  nc_id :: uuid
  nc_user1_id :: int
  nc_user2_id :: int
  nc_created_at :: datetime
  nc_last_message_at :: datetime
  nc_last_message_content :: "string option"
  nc_list_of_users :: "int list"

text \<open>
  \<^verbatim>\<open>create_or_get_conversation\<close> returns either the stored row as the client gave it
  (\<^verbatim>\<open>return conv\<close>) or the dict above: two dicts with different keys.
\<close>

datatype conversation_dict = StoredRow conversation_row | NewConversation new_conversation

text \<open>\<^verbatim>\<open>d.get(key)\<close> for the keys that the two shapes do not share.\<close>

fun get_id :: "conversation_dict \<Rightarrow> uuid option" where
  "get_id (StoredRow c) = None"
| "get_id (NewConversation n) = Some (nc_id n)"

fun get_conversation_id :: "conversation_dict \<Rightarrow> uuid option" where
  "get_conversation_id (StoredRow c) = Some (conv_conversation_id c)"
| "get_conversation_id (NewConversation n) = None"

fun get_user1_id :: "conversation_dict \<Rightarrow> int option" where
  "get_user1_id (StoredRow c) = None"
| "get_user1_id (NewConversation n) = Some (nc_user1_id n)"

fun get_user2_id :: "conversation_dict \<Rightarrow> int option" where
  "get_user2_id (StoredRow c) = None"
| "get_user2_id (NewConversation n) = Some (nc_user2_id n)"

fun get_list_of_users :: "conversation_dict \<Rightarrow> int list" where
  "get_list_of_users (StoredRow c) = conv_list_of_users c"
| "get_list_of_users (NewConversation n) = nc_list_of_users n"

section \<open>MessageModel\<close>

text \<open>
  \<^verbatim>\<open>datetime.utcnow()\<close> and \<^verbatim>\<open>uuid.uuid4()\<close> are read from the environment; the models
  take their values as the arguments \<open>created_at\<close> and \<open>message_id\<close> (or
  \<open>conversation_id\<close>). A function that writes returns the new storage with its result.
\<close>

definition create_message ::
  "db \<Rightarrow> uuid \<Rightarrow> int \<Rightarrow> int \<Rightarrow> string \<Rightarrow> datetime \<Rightarrow> uuid \<Rightarrow> message_response \<times> db" where
  "create_message s conversation_id sender_id receiver_id content_v created_at message_id =
     (let s1 = insert_message
                 \<lparr>msg_conversation_id = conversation_id,
                  msg_sent_at = created_at,
                  msg_message_id = message_id,
                  msg_sender_id = sender_id,
                  msg_receiver_id = receiver_id,
                  msg_content = content_v\<rparr> s;
          s2 = update_last_message content_v created_at conversation_id s1
      in (\<lparr>mr_id = message_id,
           mr_created_at = created_at,
           mr_sender_id = sender_id,
           mr_receiver_id = receiver_id,
           mr_content = content_v,
           mr_conversation_id = conversation_id\<rparr>, s2))"

definition get_conversation_messages ::
  "db \<Rightarrow> uuid \<Rightarrow> int \<Rightarrow> int \<Rightarrow> error + message_response paginated" where
  "get_conversation_messages s conversation_id page_v limit_v =
     (let results = select_messages conversation_id s;
          total_v = length results;
          start = (page_v - 1) * limit_v;
          paginated_results = py_slice results start (start + limit_v)
      in Inr \<lparr>total = total_v, page = page_v, limit = limit_v,
              data = map message_of_row paginated_results\<rparr>)"

definition get_messages_before_timestamp ::
  "db \<Rightarrow> uuid \<Rightarrow> datetime \<Rightarrow> int \<Rightarrow> int \<Rightarrow> error + message_response paginated" where
  "get_messages_before_timestamp s conversation_id before_timestamp page_v limit_v =
     (let results = select_messages_before conversation_id before_timestamp s;
          total_v = length results;
          start = (page_v - 1) * limit_v;
          paginated_results = py_slice results start (start + limit_v)
      in Inr \<lparr>total = total_v, page = page_v, limit = limit_v,
              data = map message_of_row paginated_results\<rparr>)"

section \<open>ConversationModel\<close>

text \<open>
  The participants as \<^verbatim>\<open>get_user_conversations\<close> and \<^verbatim>\<open>get_conversation\<close> compute them:
  the first two of \<^verbatim>\<open>sorted(users)\<close> when there are two or more, the only one twice when
  there is one, \<^verbatim>\<open>None\<close> twice otherwise.
\<close>

definition user1_user2 :: "int list \<Rightarrow> int option \<times> int option" where
  "user1_user2 users =
     (if 2 \<le> length users then (Some (sort users ! 0), Some (sort users ! 1))
      else if length users = 1 then (Some (users ! 0), Some (users ! 0))
      else (None, None))"

definition summary_of_row :: "conversation_row \<Rightarrow> conversation_summary" where
  "summary_of_row conv =
     (let (user1, user2) = user1_user2 (conv_list_of_users conv)
      in \<lparr>cs_id = conv_conversation_id conv,
          cs_user1_id = user1,
          cs_user2_id = user2,
          cs_last_message_at = conv_last_message_at conv,
          cs_last_message_content = conv_last_message_content conv\<rparr>)"

text \<open>The sort key \<^verbatim>\<open>x.get("last_message_at") or datetime.min\<close>.\<close>

definition last_message_key :: "conversation_row \<Rightarrow> datetime" where
  "last_message_key x = (case conv_last_message_at x of None \<Rightarrow> datetime_min | Some t \<Rightarrow> t)"

definition get_user_conversations ::
  "db \<Rightarrow> int \<Rightarrow> int \<Rightarrow> int \<Rightarrow> error + conversation_summary paginated" where
  "get_user_conversations s user_id page_v limit_v =
     (let results = sort_reverse last_message_key (select_conversations_containing user_id s);
          total_v = length results;
          start = (page_v - 1) * limit_v;
          data_v = py_slice results start (start + limit_v)
      in Inr \<lparr>total = total_v, page = page_v, limit = limit_v,
              data = map summary_of_row data_v\<rparr>)"

definition get_conversation :: "db \<Rightarrow> uuid \<Rightarrow> error + conversation_summary" where
  "get_conversation s conversation_id =
     (case select_conversation conversation_id s of
        [] \<Rightarrow> Inl (Exception ''Conversation not found'')
      | conv # _ \<Rightarrow> Inr (summary_of_row conv))"

definition create_or_get_conversation ::
  "db \<Rightarrow> int \<Rightarrow> int \<Rightarrow> datetime \<Rightarrow> uuid \<Rightarrow> conversation_dict \<times> db" where
  "create_or_get_conversation s user1_id user2_id created_at conversation_id =
     (case find (\<lambda>conv. user2_id \<in> set (conv_list_of_users conv))
             (select_conversations_containing user1_id s) of
        Some conv \<Rightarrow> (StoredRow conv, s)
      | None \<Rightarrow>
          (NewConversation
             \<lparr>nc_id = conversation_id,
              nc_user1_id = min user1_id user2_id,
              nc_user2_id = max user1_id user2_id,
              nc_created_at = created_at,
              nc_last_message_at = created_at,
              nc_last_message_content = None,
              nc_list_of_users = [user1_id, user2_id]\<rparr>,
           insert_conversation
             \<lparr>conv_conversation_id = conversation_id,
              conv_list_of_users = [user1_id, user2_id],
              conv_created_at = created_at,
              conv_last_message_at = Some created_at,
              conv_last_message_content = None\<rparr> s))"

section \<open>MessageController\<close>

text \<open>
  The conversation id as \<^verbatim>\<open>send_message\<close> reads it from either shape:
  \<^verbatim>\<open>conversation.get("id") or conversation.get("conversation_id")\<close>.
\<close>

definition id_or_conversation_id :: "conversation_dict \<Rightarrow> uuid option" where
  "id_or_conversation_id conversation =
     (case get_id conversation of
        Some i \<Rightarrow> Some i
      | None \<Rightarrow> get_conversation_id conversation)"

text \<open>A sequence of \<^verbatim>\<open>create_message\<close> calls into one conversation, each with its
  sender, receiver, content, clock reading and fresh id.\<close>

fun create_messages ::
  "db \<Rightarrow> uuid \<Rightarrow> (int \<times> int \<times> string \<times> datetime \<times> uuid) list \<Rightarrow> db" where
  "create_messages s conversation_id [] = s"
| "create_messages s conversation_id ((sender_id, receiver_id, content_v, created_at, message_id) # rest) =
     create_messages
       (snd (create_message s conversation_id sender_id receiver_id content_v created_at message_id))
       conversation_id rest"

section \<open>Properties of the storage\<close>

text \<open>A partition in clustering order: no row is newer than a row before it.\<close>

definition clustered :: "message_row list \<Rightarrow> bool" where
  "clustered xs = sorted_wrt (\<lambda>a b. msg_sent_at b \<le> msg_sent_at a) xs"

text \<open>A conversation row that lists both users.\<close>

definition between :: "int \<Rightarrow> int \<Rightarrow> conversation_row \<Rightarrow> bool" where
  "between a b = (\<lambda>c. a \<in> set (conv_list_of_users c) \<and> b \<in> set (conv_list_of_users c))"

text \<open>
  An example storage: conversation 1 between users 9 and 5 (created in that order) with
  two messages, and conversation 2 between users 9 and 3 with none.
\<close>

definition chat :: db where
  "chat =
     \<lparr>messages_by_conversation =
        (\<lambda>_. [])(1 :=
          [\<lparr>msg_conversation_id = 1, msg_sent_at = 20, msg_message_id = 8,
            msg_sender_id = 2, msg_receiver_id = 1, msg_content = ''hello''\<rparr>,
           \<lparr>msg_conversation_id = 1, msg_sent_at = 10, msg_message_id = 7,
            msg_sender_id = 1, msg_receiver_id = 2, msg_content = ''hi''\<rparr>]),
      conversations =
        [\<lparr>conv_conversation_id = 1, conv_list_of_users = [9, 5], conv_created_at = 5,
          conv_last_message_at = Some 20, conv_last_message_content = Some ''hello''\<rparr>,
         \<lparr>conv_conversation_id = 2, conv_list_of_users = [9, 3], conv_created_at = 6,
          conv_last_message_at = Some 6, conv_last_message_content = None\<rparr>]\<rparr>"

section \<open>Lemmas\<close>

subsection \<open>Clustering order\<close>

lemma set_insert_clustered: "set (insert_clustered r xs) = insert r (set xs)"
  by (induction xs) auto

lemma clustered_insert_clustered:
  "clustered xs \<Longrightarrow> clustered (insert_clustered r xs)"
  by (induction xs) (auto simp: clustered_def set_insert_clustered)

lemma clustered_filter: "clustered xs \<Longrightarrow> clustered (filter P xs)"
  by (simp add: clustered_def sorted_wrt_filter)

lemma select_messages_create_message:
  "select_messages cid (snd (create_message s cid a b c t i)) =
     insert_clustered
       \<lparr>msg_conversation_id = cid, msg_sent_at = t, msg_message_id = i,
        msg_sender_id = a, msg_receiver_id = b, msg_content = c\<rparr>
       (filter (\<lambda>x. \<not> (msg_sent_at x = t \<and> msg_message_id x = i)) (select_messages cid s))"
  by (simp add: create_message_def select_messages_def insert_message_def
      update_last_message_def same_key_def Let_def)

lemma clustered_create_message:
  "clustered (select_messages cid s) \<Longrightarrow>
   clustered (select_messages cid (snd (create_message s cid a b c t i)))"
  by (simp only: select_messages_create_message clustered_insert_clustered clustered_filter)

lemma clustered_create_messages:
  "clustered (select_messages cid s) \<Longrightarrow>
   clustered (select_messages cid (create_messages s cid appends))"
proof (induction appends arbitrary: s)
  case Nil
  then show ?case by simp
next
  case (Cons a appends)
  obtain sender receiver c t i where a: "a = (sender, receiver, c, t, i)"
    by (cases a) auto
  from Cons.prems have "clustered (select_messages cid (snd (create_message s cid sender receiver c t i)))"
    by (rule clustered_create_message)
  then show ?case unfolding a by (simp add: Cons.IH)
qed

lemma sorted_wrt_py_slice: "sorted_wrt P xs \<Longrightarrow> sorted_wrt P (py_slice xs a b)"
  by (simp add: py_slice_def Let_def sorted_wrt_take sorted_wrt_drop)

lemma length_py_slice_window:
  "0 \<le> start \<Longrightarrow> 0 \<le> n \<Longrightarrow> int (length (py_slice xs start (start + n))) \<le> n"
  by (auto simp: py_slice_def slice_index_def Let_def min_def)

lemma set_py_slice: "set (py_slice xs a b) \<subseteq> set xs"
  by (auto simp: py_slice_def Let_def dest: in_set_takeD in_set_dropD)

lemma py_slice_beyond:
  "0 \<le> start \<Longrightarrow> int (length xs) \<le> start \<Longrightarrow> py_slice xs start stop = []"
  by (auto simp: py_slice_def slice_index_def Let_def min_def)

subsection \<open>Finding a conversation\<close>

lemma find_filter: "find P (filter Q xs) = find (\<lambda>x. Q x \<and> P x) xs"
  by (induction xs) auto

lemma between_commute: "between b a = between a b"
  by (auto simp: between_def fun_eq_iff)

lemma find_upsert_conversation:
  "find P cs = None \<Longrightarrow> P r \<Longrightarrow> find P (upsert_conversation r cs) = Some r"
  by (induction cs) (auto split: if_splits)

lemma create_or_get_found:
  "find (between a b) (conversations s) = Some conv \<Longrightarrow>
   create_or_get_conversation s a b t i = (StoredRow conv, s)"
  by (simp add: create_or_get_conversation_def select_conversations_containing_def
      find_filter between_def)

lemma create_or_get_created:
  "find (between a b) (conversations s) = None \<Longrightarrow>
   create_or_get_conversation s a b t i =
     (NewConversation
        \<lparr>nc_id = i, nc_user1_id = min a b, nc_user2_id = max a b, nc_created_at = t,
         nc_last_message_at = t, nc_last_message_content = None, nc_list_of_users = [a, b]\<rparr>,
      insert_conversation
        \<lparr>conv_conversation_id = i, conv_list_of_users = [a, b], conv_created_at = t,
         conv_last_message_at = Some t, conv_last_message_content = None\<rparr> s)"
  by (simp add: create_or_get_conversation_def select_conversations_containing_def
      find_filter between_def)

lemma create_or_get_twice:
  assumes first: "create_or_get_conversation s a b t1 i1 = (d1, s1)"
    and second: "create_or_get_conversation s1 a b t2 i2 = (d2, s2)"
  shows "id_or_conversation_id d1 = id_or_conversation_id d2 \<and> id_or_conversation_id d1 \<noteq> None"
proof (cases "find (between a b) (conversations s)")
  case (Some conv)
  with first have "d1 = StoredRow conv" "s1 = s"
    by (simp_all add: create_or_get_found)
  moreover from this Some second have "d2 = StoredRow conv"
    by (simp add: create_or_get_found)
  ultimately show ?thesis
    by (simp add: id_or_conversation_id_def)
next
  case None
  let ?row = "\<lparr>conv_conversation_id = i1, conv_list_of_users = [a, b], conv_created_at = t1,
         conv_last_message_at = Some t1, conv_last_message_content = None\<rparr>"
  from None first have d1: "get_id d1 = Some i1" and s1: "s1 = insert_conversation ?row s"
    by (auto simp: create_or_get_created)
  have "find (between a b) (conversations s1) = Some ?row"
    unfolding s1 insert_conversation_def using None
    by (simp add: find_upsert_conversation between_def)
  with second have "d2 = StoredRow ?row"
    by (simp add: create_or_get_found)
  with d1 show ?thesis
    by (simp add: id_or_conversation_id_def)
qed

subsection \<open>Reading and writing conversations\<close>

lemma select_conversation_empty:
  "select_conversation cid s = [] \<longleftrightarrow> cid \<notin> conv_conversation_id ` set (conversations s)"
  by (auto simp: select_conversation_def filter_empty_conv)

lemma user1_user2_pair: "user1_user2 [a, b] = (Some (min a b), Some (max a b))"
  by (simp add: user1_user2_def min_def max_def)

lemma summary_of_row_pair:
  "conv_list_of_users conv = [a, b] \<Longrightarrow>
   cs_user1_id (summary_of_row conv) = Some (min a b) \<and>
   cs_user2_id (summary_of_row conv) = Some (max a b)"
  by (simp add: summary_of_row_def user1_user2_pair)

lemma select_conversation_create_message:
  "select_conversation cid (snd (create_message s cid a b c t i)) =
     map (\<lambda>conv. conv\<lparr>conv_last_message_content := Some c, conv_last_message_at := Some t\<rparr>)
       (select_conversation cid s)"
proof -
  have "filter (\<lambda>conv. conv_conversation_id conv = cid)
          (map (\<lambda>conv. if conv_conversation_id conv = cid
                  then conv\<lparr>conv_last_message_content := Some c, conv_last_message_at := Some t\<rparr>
                  else conv) xs) =
        map (\<lambda>conv. conv\<lparr>conv_last_message_content := Some c, conv_last_message_at := Some t\<rparr>)
          (filter (\<lambda>conv. conv_conversation_id conv = cid) xs)" for xs
    by (induction xs) auto
  then show ?thesis
    by (simp add: select_conversation_def create_message_def update_last_message_def
        insert_message_def Let_def)
qed

lemma conversations_create_message:
  "conversations (snd (create_message s cid a b c t i)) =
     map (\<lambda>conv. if conv_conversation_id conv = cid
            then conv\<lparr>conv_last_message_content := Some c, conv_last_message_at := Some t\<rparr>
            else conv) (conversations s)"
  by (simp add: create_message_def update_last_message_def insert_message_def Let_def)

lemma fst_create_message:
  "mr_content (fst (create_message s cid a b c t i)) = c \<and>
   mr_created_at (fst (create_message s cid a b c t i)) = t"
  by (simp add: create_message_def Let_def)

lemma select_conversation_nonempty:
  "cid \<in> conv_conversation_id ` set (conversations s) \<Longrightarrow>
   \<exists>conv rest. select_conversation cid s = conv # rest \<and> conv_conversation_id conv = cid"
proof -
  assume "cid \<in> conv_conversation_id ` set (conversations s)"
  then have "select_conversation cid s \<noteq> []"
    by (auto simp: select_conversation_def filter_empty_conv)
  then obtain conv rest where sel: "select_conversation cid s = conv # rest"
    by (cases "select_conversation cid s") auto
  then have "conv \<in> set (select_conversation cid s)" by simp
  then have "conv_conversation_id conv = cid"
    by (simp add: select_conversation_def)
  with sel show ?thesis by blast
qed

lemma summary_of_row_fields:
  "cs_id (summary_of_row conv) = conv_conversation_id conv \<and>
   cs_last_message_at (summary_of_row conv) = conv_last_message_at conv \<and>
   cs_last_message_content (summary_of_row conv) = conv_last_message_content conv"
  by (simp add: summary_of_row_def split: prod.split)

lemma updated_rows:
  assumes member: "row \<in> set (map (\<lambda>conv. if conv_conversation_id conv = cid
            then conv\<lparr>conv_last_message_content := Some c, conv_last_message_at := Some t\<rparr>
            else conv) xs)"
    and cid: "conv_conversation_id row = cid"
  shows "conv_last_message_content row = Some c \<and> conv_last_message_at row = Some t"
proof -
  let ?f = "\<lambda>conv. if conv_conversation_id conv = cid
            then conv\<lparr>conv_last_message_content := Some c, conv_last_message_at := Some t\<rparr>
            else conv"
  from member have "row \<in> ?f ` set xs"
    by (simp only: set_map)
  then obtain x where row: "row = ?f x"
    by (rule imageE)
  show ?thesis
  proof (cases "conv_conversation_id x = cid")
    case True
    with row show ?thesis by simp
  next
    case False
    with row have "row = x" by simp
    with False cid show ?thesis by simp
  qed
qed

section \<open>The claims\<close>

text \<open>
  C1. For every conversation and every positive page and limit, after any sequence of
  \<^verbatim>\<open>create_message\<close> calls into that conversation (from storage whose partition is in
  clustering order, the empty one included), \<^verbatim>\<open>get_conversation_messages\<close> returns a
  data list in which \<^verbatim>\<open>created_at\<close> never increases, and the length of the list is at
  most the limit.
\<close>

theorem C1_messages_newest_first_within_limit:
  assumes "clustered (select_messages cid s)" and "0 < page_v" and "0 < limit_v"
  shows "\<exists>env. get_conversation_messages (create_messages s cid appends) cid page_v limit_v = Inr env
           \<and> sorted_wrt (\<lambda>a b. mr_created_at b \<le> mr_created_at a) (data env)
           \<and> int (length (data env)) \<le> limit_v"
proof -
  let ?rows = "select_messages cid (create_messages s cid appends)"
  let ?start = "(page_v - 1) * limit_v"
  have "clustered ?rows"
    using assms(1) by (rule clustered_create_messages)
  then have "sorted_wrt (\<lambda>a b. msg_sent_at b \<le> msg_sent_at a) (py_slice ?rows ?start (?start + limit_v))"
    unfolding clustered_def by (rule sorted_wrt_py_slice)
  then have sorted: "sorted_wrt (\<lambda>a b. mr_created_at b \<le> mr_created_at a)
      (map message_of_row (py_slice ?rows ?start (?start + limit_v)))"
    by (simp add: sorted_wrt_map message_of_row_def)
  have "0 \<le> ?start" using assms(2,3) by simp
  then have len: "int (length (py_slice ?rows ?start (?start + limit_v))) \<le> limit_v"
    using assms(3) by (intro length_py_slice_window) simp_all
  show ?thesis
    using sorted len by (simp add: get_conversation_messages_def Let_def)
qed

text \<open>
  The theorem at the empty storage, two messages written with the clock going backwards,
  page 1 and limit 1.
\<close>

theorem C1_messages_newest_first_within_limit_witness:
  "clustered (select_messages 1 empty_db) \<and>
   (\<exists>env. get_conversation_messages
        (create_messages empty_db 1 [(1, 2, ''hi'', 20, 7), (2, 1, ''hello'', 10, 8)]) 1 1 1 = Inr env
      \<and> sorted_wrt (\<lambda>a b. mr_created_at b \<le> mr_created_at a) (data env)
      \<and> int (length (data env)) \<le> 1)"
  using C1_messages_newest_first_within_limit [of 1 empty_db 1 1 "[(1, 2, ''hi'', 20, 7), (2, 1, ''hello'', 10, 8)]"]
  by (simp add: clustered_def select_messages_def empty_db_def)

text \<open>
  C2. For every pair of users and every starting storage, two calls of
  \<^verbatim>\<open>create_or_get_conversation\<close> one after the other, the second with the users in the
  same or in the reversed order, give the same conversation id (read as
  \<^verbatim>\<open>send_message\<close> reads it), and there is one.
\<close>

theorem C2_find_or_create_twice_same_id:
  assumes first: "create_or_get_conversation s a b t1 i1 = (d1, s1)"
    and order: "(x, y) = (a, b) \<or> (x, y) = (b, a)"
    and second: "create_or_get_conversation s1 x y t2 i2 = (d2, s2)"
  shows "id_or_conversation_id d1 = id_or_conversation_id d2 \<and> id_or_conversation_id d1 \<noteq> None"
proof -
  have found: "\<exists>conv. find (between a b) (conversations s1) = Some conv"
  proof (cases "find (between a b) (conversations s)")
    case (Some conv)
    with first show ?thesis by (simp add: create_or_get_found)
  next
    case None
    with first show ?thesis
      by (auto simp: create_or_get_created insert_conversation_def between_def
          find_upsert_conversation)
  qed
  then obtain conv where "find (between a b) (conversations s1) = Some conv" ..
  then have "create_or_get_conversation s1 x y t2 i2 = create_or_get_conversation s1 a b t2 i2"
    using order by (auto simp: create_or_get_found between_commute)
  with second have "create_or_get_conversation s1 a b t2 i2 = (d2, s2)"
    by simp
  with first show ?thesis
    by (rule create_or_get_twice)
qed

text \<open>The theorem at the empty storage, users 5 and 9, then 9 and 5.\<close>

theorem C2_find_or_create_twice_same_id_witness:
  "id_or_conversation_id (fst (create_or_get_conversation empty_db 5 9 100 42)) =
   id_or_conversation_id
     (fst (create_or_get_conversation (snd (create_or_get_conversation empty_db 5 9 100 42)) 9 5 200 43))
   \<and> id_or_conversation_id (fst (create_or_get_conversation empty_db 5 9 100 42)) \<noteq> None"
  by (rule C2_find_or_create_twice_same_id [OF surjective_pairing _ surjective_pairing]) simp

text \<open>
  C3. The claim: for every pair of users, equal users included,
  \<^verbatim>\<open>create_or_get_conversation\<close> returns a conversation whose participants are exactly
  those two. The code at users 9 and 9, with a conversation between 9 and 5 stored: the
  scan for user 9 yields that conversation, the test \<^verbatim>\<open>user2_id in list_of_users\<close> holds
  for it, and it is returned, although user 5 is in it.
\<close>

theorem C3_same_user_twice_returns_other_conversation:
  "fst (create_or_get_conversation chat 9 9 30 77) =
     StoredRow
       \<lparr>conv_conversation_id = 1, conv_list_of_users = [9, 5], conv_created_at = 5,
        conv_last_message_at = Some 20, conv_last_message_content = Some ''hello''\<rparr>
   \<and> set (get_list_of_users (fst (create_or_get_conversation chat 9 9 30 77))) \<noteq> {9, 9}"
  by (simp add: create_or_get_conversation_def select_conversations_containing_def chat_def)

text \<open>
  C4. The claim: every operation that exposes the participants of a stored conversation
  reports them as (min, max), whatever their order at creation, the found branch of
  \<^verbatim>\<open>create_or_get_conversation\<close> included. The code in the found branch returns the
  stored row: its \<^verbatim>\<open>list_of_users\<close> is in the order of creation, [9, 5] after a creation
  with (9, 5) and [5, 9] after a creation with (5, 9), and it has no \<^verbatim>\<open>user1_id\<close> or
  \<^verbatim>\<open>user2_id\<close>. (\<open>summary_of_row_pair\<close> above is the normalisation in
  \<^verbatim>\<open>get_conversation\<close> and \<^verbatim>\<open>get_user_conversations\<close>.)
\<close>

theorem C4_found_branch_reports_stored_order:
  "get_list_of_users
     (fst (create_or_get_conversation
        (snd (create_or_get_conversation empty_db 9 5 100 42)) 5 9 200 43)) = [9, 5]
   \<and> get_list_of_users
     (fst (create_or_get_conversation
        (snd (create_or_get_conversation empty_db 5 9 100 42)) 5 9 200 43)) = [5, 9]
   \<and> get_user1_id
     (fst (create_or_get_conversation
        (snd (create_or_get_conversation empty_db 9 5 100 42)) 5 9 200 43)) = None
   \<and> get_user2_id
     (fst (create_or_get_conversation
        (snd (create_or_get_conversation empty_db 9 5 100 42)) 5 9 200 43)) = None"
  by (simp add: create_or_get_conversation_def select_conversations_containing_def
      insert_conversation_def empty_db_def)

text \<open>
  C5, as amended. With \<^verbatim>\<open>limit <= 0\<close> or \<^verbatim>\<open>page <= 0\<close> the three paginated
  operations do not fail and reject nothing: no check precedes the slice. Each returns the
  envelope with the full count as total, the given page and limit, and as data the rows of
  the Python slice \<^verbatim>\<open>results[start:start + limit]\<close> with \<^verbatim>\<open>start = (page - 1) * limit\<close>,
  negative indexes counting from the end.
\<close>

theorem C5_nonpositive_page_or_limit_not_rejected:
  assumes "limit_v \<le> 0 \<or> page_v \<le> 0"
  shows "get_conversation_messages s cid page_v limit_v =
           Inr \<lparr>total = length (select_messages cid s), page = page_v, limit = limit_v,
                data = map message_of_row
                  (py_slice (select_messages cid s)
                     ((page_v - 1) * limit_v) ((page_v - 1) * limit_v + limit_v))\<rparr>
       \<and> get_messages_before_timestamp s cid t page_v limit_v =
           Inr \<lparr>total = length (select_messages_before cid t s), page = page_v, limit = limit_v,
                data = map message_of_row
                  (py_slice (select_messages_before cid t s)
                     ((page_v - 1) * limit_v) ((page_v - 1) * limit_v + limit_v))\<rparr>
       \<and> get_user_conversations s u page_v limit_v =
           Inr \<lparr>total = length (select_conversations_containing u s), page = page_v,
                limit = limit_v,
                data = map summary_of_row
                  (py_slice (sort_reverse last_message_key (select_conversations_containing u s))
                     ((page_v - 1) * limit_v) ((page_v - 1) * limit_v + limit_v))\<rparr>"
  by (simp add: get_conversation_messages_def get_messages_before_timestamp_def
      get_user_conversations_def sort_reverse_def Let_def)

text \<open>
  The amended statement at page 1 and limit -1 on the example storage: the slice
  \<^verbatim>\<open>results[0:-1]\<close> drops the last row.
\<close>

theorem C5_nonpositive_page_or_limit_not_rejected_witness:
  "((- 1 :: int) \<le> 0 \<or> (1 :: int) \<le> 0)
   \<and> get_conversation_messages chat 1 1 (- 1) =
       Inr \<lparr>total = 2, page = 1, limit = - 1,
            data = [\<lparr>mr_id = 8, mr_created_at = 20, mr_sender_id = 2, mr_receiver_id = 1,
                     mr_content = ''hello'', mr_conversation_id = 1\<rparr>]\<rparr>
   \<and> get_messages_before_timestamp chat 1 20 1 (- 1) =
       Inr \<lparr>total = 1, page = 1, limit = - 1, data = []\<rparr>
   \<and> get_user_conversations chat 9 1 (- 1) =
       Inr \<lparr>total = 2, page = 1, limit = - 1,
            data = [\<lparr>cs_id = 1, cs_user1_id = Some 5, cs_user2_id = Some 9,
                     cs_last_message_at = Some 20,
                     cs_last_message_content = Some ''hello''\<rparr>]\<rparr>"
  using C5_nonpositive_page_or_limit_not_rejected [of "- 1" 1 chat 1 20 9]
  by (simp add: select_messages_def select_messages_before_def
      select_conversations_containing_def chat_def py_slice_def slice_index_def
      message_of_row_def summary_of_row_def user1_user2_def sort_reverse_def
      last_message_key_def)

text \<open>
  C5 as stated fails: with limit -1 the call returns an envelope, with one message in
  it, and no error.
\<close>

theorem C5_negative_limit_counterexample:
  "get_conversation_messages chat 1 1 (- 1) =
     Inr \<lparr>total = 2, page = 1, limit = - 1,
          data = [\<lparr>mr_id = 8, mr_created_at = 20, mr_sender_id = 2, mr_receiver_id = 1,
                   mr_content = ''hello'', mr_conversation_id = 1\<rparr>]\<rparr>"
  by (simp add: get_conversation_messages_def select_messages_def chat_def py_slice_def
      slice_index_def message_of_row_def)

text \<open>
  C6. \<^verbatim>\<open>get_conversation\<close> fails with \<^verbatim>\<open>Exception("Conversation not found")\<close> if and
  only if no stored conversation has the id; when one has, the call returns the record of
  a stored conversation with that id.
\<close>

theorem C6_get_conversation_not_found_iff_absent:
  "(get_conversation s cid = Inl (Exception ''Conversation not found'')
      \<longleftrightarrow> cid \<notin> conv_conversation_id ` set (conversations s))
   \<and> (cid \<in> conv_conversation_id ` set (conversations s) \<longrightarrow>
        (\<exists>conv \<in> set (conversations s).
           conv_conversation_id conv = cid \<and>
           get_conversation s cid = Inr (summary_of_row conv) \<and>
           cs_id (summary_of_row conv) = cid))"
proof (cases "select_conversation cid s")
  case Nil
  then show ?thesis
    using select_conversation_empty [of cid s] by (simp add: get_conversation_def)
next
  case (Cons conv rest)
  then have "conv \<in> set (select_conversation cid s)" by simp
  then have "conv \<in> set (conversations s)" "conv_conversation_id conv = cid"
    by (simp_all add: select_conversation_def)
  moreover have "cs_id (summary_of_row conv) = conv_conversation_id conv"
    by (simp add: summary_of_row_def split: prod.split)
  ultimately show ?thesis
    using Cons select_conversation_empty [of cid s]
    by (auto simp: get_conversation_def)
qed

text \<open>
  The theorem on the example storage: id 3 is absent, id 1 is present.
\<close>

theorem C6_get_conversation_not_found_iff_absent_witness:
  "get_conversation chat 3 = Inl (Exception ''Conversation not found'')
   \<and> get_conversation chat 1 =
       Inr \<lparr>cs_id = 1, cs_user1_id = Some 5, cs_user2_id = Some 9,
            cs_last_message_at = Some 20, cs_last_message_content = Some ''hello''\<rparr>"
  using C6_get_conversation_not_found_iff_absent [of chat 3] C6_get_conversation_not_found_iff_absent [of chat 1]
  by (simp add: chat_def summary_of_row_def user1_user2_def)

text \<open>
  C7. For positive page and limit, the total of \<^verbatim>\<open>get_conversation_messages\<close> is the
  number of messages of the conversation and the total of \<^verbatim>\<open>get_user_conversations\<close> is
  the number of conversations that list the user, whatever the page and the limit; and
  when \<^verbatim>\<open>(page - 1) * limit\<close> is at or beyond the total, data is empty.
\<close>

theorem C7_total_is_full_count_and_page_beyond_is_empty:
  assumes "0 < page_v" and "0 < limit_v"
  shows "\<exists>msgs convs.
           get_conversation_messages s cid page_v limit_v = Inr msgs
         \<and> total msgs = length (messages_by_conversation s cid)
         \<and> (int (total msgs) \<le> (page_v - 1) * limit_v \<longrightarrow> data msgs = [])
         \<and> get_user_conversations s u page_v limit_v = Inr convs
         \<and> total convs = length (filter (\<lambda>c. u \<in> set (conv_list_of_users c)) (conversations s))
         \<and> (int (total convs) \<le> (page_v - 1) * limit_v \<longrightarrow> data convs = [])"
proof -
  have start: "0 \<le> (page_v - 1) * limit_v"
    using assms by simp
  show ?thesis
    using start
    by (simp add: get_conversation_messages_def get_user_conversations_def Let_def
        select_messages_def select_conversations_containing_def sort_reverse_def
        py_slice_beyond)
qed

text \<open>
  The theorem on the example storage at page 2 and limit 2, beyond the two rows.
\<close>

theorem C7_total_is_full_count_and_page_beyond_is_empty_witness:
  "(\<exists>msgs convs.
      get_conversation_messages chat 1 2 2 = Inr msgs
    \<and> total msgs = length (messages_by_conversation chat 1)
    \<and> (int (total msgs) \<le> (2 - 1) * 2 \<longrightarrow> data msgs = [])
    \<and> get_user_conversations chat 9 2 2 = Inr convs
    \<and> total convs = length (filter (\<lambda>c. 9 \<in> set (conv_list_of_users c)) (conversations chat))
    \<and> (int (total convs) \<le> (2 - 1) * 2 \<longrightarrow> data convs = []))
   \<and> length (messages_by_conversation chat 1) = 2
   \<and> length (filter (\<lambda>c. 9 \<in> set (conv_list_of_users c)) (conversations chat)) = 2"
  using C7_total_is_full_count_and_page_beyond_is_empty [of 2 2 chat 1 9]
  by (simp add: chat_def)

text \<open>
  C8. For positive page and limit, \<^verbatim>\<open>get_messages_before_timestamp\<close> returns only
  messages of the conversation whose \<^verbatim>\<open>created_at\<close> is strictly less than the timestamp,
  and its total counts exactly those: a message written at the timestamp is in neither.
\<close>

theorem C8_messages_before_timestamp_strict:
  assumes "0 < page_v" and "0 < limit_v"
  shows "\<exists>env. get_messages_before_timestamp s cid t page_v limit_v = Inr env
         \<and> total env = length (filter (\<lambda>m. msg_sent_at m < t) (select_messages cid s))
         \<and> (\<forall>r \<in> set (data env). mr_created_at r < t)
         \<and> set (data env) \<subseteq>
             message_of_row ` {m \<in> set (select_messages cid s). msg_sent_at m < t}"
proof -
  let ?results = "select_messages_before cid t s"
  let ?start = "(page_v - 1) * limit_v"
  have results: "set ?results = {m \<in> set (select_messages cid s). msg_sent_at m < t}"
    by (auto simp: select_messages_before_def select_messages_def)
  have window: "set (py_slice ?results ?start (?start + limit_v)) \<subseteq> set ?results"
    by (rule set_py_slice)
  have "\<forall>m \<in> set (py_slice ?results ?start (?start + limit_v)). msg_sent_at m < t"
    using window results by blast
  then have before: "\<forall>r \<in> set (map message_of_row (py_slice ?results ?start (?start + limit_v))).
      mr_created_at r < t"
    by (simp add: message_of_row_def)
  have subset: "set (map message_of_row (py_slice ?results ?start (?start + limit_v))) \<subseteq>
      message_of_row ` {m \<in> set (select_messages cid s). msg_sent_at m < t}"
    using window results by auto
  have count: "length ?results = length (filter (\<lambda>m. msg_sent_at m < t) (select_messages cid s))"
    by (simp add: select_messages_before_def select_messages_def)
  show ?thesis
    using before subset count
    by (simp add: get_messages_before_timestamp_def Let_def)
qed

text \<open>
  The theorem on the example storage with the timestamp of the newest message: only
  the older message is returned and counted.
\<close>

theorem C8_messages_before_timestamp_strict_witness:
  "get_messages_before_timestamp chat 1 20 1 20 =
     Inr \<lparr>total = 1, page = 1, limit = 20,
          data = [\<lparr>mr_id = 7, mr_created_at = 10, mr_sender_id = 1, mr_receiver_id = 2,
                   mr_content = ''hi'', mr_conversation_id = 1\<rparr>]\<rparr>
   \<and> (\<exists>env. get_messages_before_timestamp chat 1 20 1 20 = Inr env
         \<and> total env = length (filter (\<lambda>m. msg_sent_at m < 20) (select_messages 1 chat))
         \<and> (\<forall>r \<in> set (data env). mr_created_at r < 20)
         \<and> set (data env) \<subseteq>
             message_of_row ` {m \<in> set (select_messages 1 chat). msg_sent_at m < 20})"
proof (rule conjI)
  show "get_messages_before_timestamp chat 1 20 1 20 =
     Inr \<lparr>total = 1, page = 1, limit = 20,
          data = [\<lparr>mr_id = 7, mr_created_at = 10, mr_sender_id = 1, mr_receiver_id = 2,
                   mr_content = ''hi'', mr_conversation_id = 1\<rparr>]\<rparr>"
    by (simp add: get_messages_before_timestamp_def select_messages_before_def chat_def
        py_slice_def slice_index_def message_of_row_def)
next
  have page: "(0::int) < 1" and limit: "(0::int) < 20"
    by simp_all
  show "\<exists>env. get_messages_before_timestamp chat 1 20 1 20 = Inr env
         \<and> total env = length (filter (\<lambda>m. msg_sent_at m < 20) (select_messages 1 chat))
         \<and> (\<forall>r \<in> set (data env). mr_created_at r < 20)
         \<and> set (data env) \<subseteq>
             message_of_row ` {m \<in> set (select_messages 1 chat). msg_sent_at m < 20}"
    by (rule C8_messages_before_timestamp_strict [OF page limit])
qed

text \<open>
  C9. After \<^verbatim>\<open>create_message\<close> into a stored conversation, the conversation's
  \<^verbatim>\<open>last_message_content\<close> and \<^verbatim>\<open>last_message_at\<close> are the content and
  \<^verbatim>\<open>created_at\<close> of the new message, whatever was stored before: nothing compares the
  new timestamp with the old one.
\<close>

theorem C9_last_message_overwritten:
  assumes exists: "cid \<in> conv_conversation_id ` set (conversations s)"
    and call: "create_message s cid sender_id receiver_id content_v created_at message_id = (msg, s')"
  shows "mr_content msg = content_v \<and> mr_created_at msg = created_at
       \<and> (\<exists>conv. get_conversation s' cid = Inr conv
             \<and> cs_id conv = cid
             \<and> cs_last_message_content conv = Some content_v
             \<and> cs_last_message_at conv = Some created_at)
       \<and> (\<forall>row \<in> set (conversations s'). conv_conversation_id row = cid \<longrightarrow>
             conv_last_message_content row = Some content_v
             \<and> conv_last_message_at row = Some created_at)"
proof (intro conjI)
  from call have msg: "msg = fst (create_message s cid sender_id receiver_id content_v created_at message_id)"
    and s': "s' = snd (create_message s cid sender_id receiver_id content_v created_at message_id)"
    by simp_all
  show "mr_content msg = content_v" and "mr_created_at msg = created_at"
    unfolding msg by (simp_all add: fst_create_message)
  from select_conversation_nonempty [OF exists]
  obtain conv rest where sel: "select_conversation cid s = conv # rest"
    and cid: "conv_conversation_id conv = cid"
    by blast
  let ?new = "conv\<lparr>conv_last_message_content := Some content_v,
                      conv_last_message_at := Some created_at\<rparr>"
  have "select_conversation cid s' = ?new # map (\<lambda>c. c\<lparr>conv_last_message_content := Some content_v,
                      conv_last_message_at := Some created_at\<rparr>) rest"
    unfolding s' select_conversation_create_message sel by simp
  then have get: "get_conversation s' cid = Inr (summary_of_row ?new)"
    by (simp add: get_conversation_def)
  have fields: "cs_id (summary_of_row ?new) = cid
      \<and> cs_last_message_content (summary_of_row ?new) = Some content_v
      \<and> cs_last_message_at (summary_of_row ?new) = Some created_at"
    using cid by (simp add: summary_of_row_fields)
  show "\<exists>conv. get_conversation s' cid = Inr conv
             \<and> cs_id conv = cid
             \<and> cs_last_message_content conv = Some content_v
             \<and> cs_last_message_at conv = Some created_at"
    by (rule exI [where x = "summary_of_row ?new"]) (simp only: get fields simp_thms)
  show "\<forall>row \<in> set (conversations s'). conv_conversation_id row = cid \<longrightarrow>
             conv_last_message_content row = Some content_v
             \<and> conv_last_message_at row = Some created_at"
  proof (intro ballI impI)
    fix row
    assume "row \<in> set (conversations s')" and "conv_conversation_id row = cid"
    then show "conv_last_message_content row = Some content_v
             \<and> conv_last_message_at row = Some created_at"
      unfolding s' conversations_create_message by (rule updated_rows)
  qed
qed

text \<open>
  The theorem on the example storage: the conversation's last message was written at
  20, the new one is written at 15, and 15 is stored.
\<close>

theorem C9_last_message_overwritten_witness:
  "get_conversation chat 1 =
     Inr \<lparr>cs_id = 1, cs_user1_id = Some 5, cs_user2_id = Some 9,
          cs_last_message_at = Some 20, cs_last_message_content = Some ''hello''\<rparr>
   \<and> mr_content (fst (create_message chat 1 5 9 ''late'' 15 9)) = ''late''
   \<and> mr_created_at (fst (create_message chat 1 5 9 ''late'' 15 9)) = 15
   \<and> (\<exists>conv. get_conversation (snd (create_message chat 1 5 9 ''late'' 15 9)) 1 = Inr conv
         \<and> cs_id conv = 1
         \<and> cs_last_message_content conv = Some ''late''
         \<and> cs_last_message_at conv = Some 15)"
proof -
  have before: "get_conversation chat 1 =
     Inr \<lparr>cs_id = 1, cs_user1_id = Some 5, cs_user2_id = Some 9,
          cs_last_message_at = Some 20, cs_last_message_content = Some ''hello''\<rparr>"
    by (simp add: get_conversation_def select_conversation_def chat_def summary_of_row_def
        user1_user2_def)
  have exists: "1 \<in> conv_conversation_id ` set (conversations chat)"
    by (simp add: chat_def)
  note after = C9_last_message_overwritten [OF exists surjective_pairing, of 5 9 "''late''" 15 9]
  from after have content: "mr_content (fst (create_message chat 1 5 9 ''late'' 15 9)) = ''late''"
    by (rule conjunct1)
  from after have at: "mr_created_at (fst (create_message chat 1 5 9 ''late'' 15 9)) = 15"
    by (rule conjunct1 [OF conjunct2])
  from after have stored:
    "\<exists>conv. get_conversation (snd (create_message chat 1 5 9 ''late'' 15 9)) 1 = Inr conv
         \<and> cs_id conv = 1
         \<and> cs_last_message_content conv = Some ''late''
         \<and> cs_last_message_at conv = Some 15"
    by (rule conjunct1 [OF conjunct2 [OF conjunct2]])
  from before content at stored show ?thesis
    by (intro conjI)
qed

text \<open>
  C10. With page 0 and a positive limit, \<^verbatim>\<open>get_conversation_messages\<close>,
  \<^verbatim>\<open>get_messages_before_timestamp\<close> and \<^verbatim>\<open>get_user_conversations\<close> raise nothing:
  the slice is \<^verbatim>\<open>results[-limit:0]\<close>, so data is empty, total is the full count, and the
  envelope has page 0 and the given limit.
\<close>

theorem C10_page_zero_gives_empty_data:
  assumes "0 < limit_v"
  shows "get_conversation_messages s cid 0 limit_v =
           Inr \<lparr>total = length (messages_by_conversation s cid), page = 0, limit = limit_v,
                data = []\<rparr>
       \<and> get_messages_before_timestamp s cid t 0 limit_v =
           Inr \<lparr>total = length (filter (\<lambda>m. msg_sent_at m < t) (messages_by_conversation s cid)),
                page = 0, limit = limit_v, data = []\<rparr>
       \<and> get_user_conversations s u 0 limit_v =
           Inr \<lparr>total = length (filter (\<lambda>c. u \<in> set (conv_list_of_users c)) (conversations s)),
                page = 0, limit = limit_v, data = []\<rparr>"
  using assms
  by (simp add: get_conversation_messages_def get_messages_before_timestamp_def
      get_user_conversations_def select_messages_def select_messages_before_def
      select_conversations_containing_def sort_reverse_def py_slice_def slice_index_def Let_def)

text \<open>
  The theorem on the example storage at limit 1.
\<close>

theorem C10_page_zero_gives_empty_data_witness:
  "get_conversation_messages chat 1 0 1 = Inr \<lparr>total = 2, page = 0, limit = 1, data = []\<rparr>
   \<and> get_messages_before_timestamp chat 1 20 0 1 =
       Inr \<lparr>total = 1, page = 0, limit = 1, data = []\<rparr>
   \<and> get_user_conversations chat 9 0 1 = Inr \<lparr>total = 2, page = 0, limit = 1, data = []\<rparr>"
  using C10_page_zero_gives_empty_data [of 1 chat 1 20 9]
  by (simp add: chat_def)

end
